theory Spec2Isabelle
  imports Complex_Main "HOL-Library.AList"
begin

section \<open>Exceptions and configuration\<close>

text \<open>
  A raised Python exception is a value. \<open>Error c m\<close> is an instance of a class \<open>c\<close> derived
  from \<open>Exception\<close> whose \<open>str(exc)\<close> is \<open>m\<close>; \<open>BaseError c m\<close> is an instance of a class
  derived from \<open>BaseException\<close> only (\<open>asyncio.CancelledError\<close>, \<open>KeyboardInterrupt\<close>,
  \<open>SystemExit\<close>), which \<open>except Exception\<close> does not catch.
\<close>

datatype exception =
    Error (exc_class: string) (exc_str: string)
  | BaseError (exc_class: string) (exc_str: string)

fun is_Exception :: "exception \<Rightarrow> bool" where
  "is_Exception (Error c m) = True"
| "is_Exception (BaseError c m) = False"

text \<open>
  The three retry fields of \<open>Settings\<close> (app/settings.py). The two delays are Python floats;
  the retry code only compares them with exact integers and returns one of the operands, so
  no rounding takes place and they are modelled as reals.
\<close>

record settings =
  max_retries :: int
  retry_base_seconds :: real
  retry_max_seconds :: real

definition default_settings :: settings where
  "default_settings = \<lparr>max_retries = 3, retry_base_seconds = 1, retry_max_seconds = 20\<rparr>"

section \<open>The retry policy (app/utils/retries.py)\<close>

text \<open>
  \<open>wait_exponential(multiplier=1, max, exp_base=2, min)\<close> of the tenacity library: the wait
  after attempt number \<open>n\<close> (counted from 1) is
  \<open>max(max(0, min), min(multiplier * 2 ** (n - 1), max))\<close>.
\<close>

definition wait_exponential :: "real \<Rightarrow> real \<Rightarrow> real \<Rightarrow> nat \<Rightarrow> real" where
  "wait_exponential multiplier mn mx attempt_number =
     max (max 0 mn) (min (multiplier * 2 ^ (attempt_number - 1)) mx)"

text \<open>
  The loop of tenacity's \<open>retry(retry=retry_if_exception_type(Exception),
  stop=stop_after_attempt(m), wait=w, reraise=True)\<close> around an action \<open>fn\<close> that works on a
  state \<open>'s\<close>. The action is called; a returned value is returned. A raised exception that is
  not an instance of \<open>Exception\<close> is raised again at once; otherwise the loop stops when the
  attempt number has reached \<open>m\<close> and raises that last exception again, and else sleeps
  \<open>w attempt_number\<close> and calls the action again. The result is the outcome, the final state,
  the number of invocations of the action and the sleeps in order.
\<close>

function retry_loop ::
  "int \<Rightarrow> (nat \<Rightarrow> real) \<Rightarrow> ('s \<Rightarrow> (exception + 'a) \<times> 's) \<Rightarrow> nat \<Rightarrow> 's
     \<Rightarrow> (exception + 'a) \<times> 's \<times> nat \<times> real list" where
  "retry_loop max_attempt_number wait fn attempt_number s =
     (case fn s of
        (Inr v, s') \<Rightarrow> (Inr v, s', attempt_number, [])
      | (Inl e, s') \<Rightarrow>
          if \<not> is_Exception e then (Inl e, s', attempt_number, [])
          else if max_attempt_number \<le> int attempt_number then (Inl e, s', attempt_number, [])
          else (case retry_loop max_attempt_number wait fn (Suc attempt_number) s' of
                  (r, s'', n, ds) \<Rightarrow> (r, s'', n, wait attempt_number # ds)))"
  by pat_completeness auto
termination
  by (relation "measure (\<lambda>(m, w, f, n, s). nat (m - int n))") auto

declare retry_loop.simps [simp del]

definition retry_configured ::
  "settings \<Rightarrow> ('s \<Rightarrow> (exception + 'a) \<times> 's) \<Rightarrow> 's \<Rightarrow> (exception + 'a) \<times> 's \<times> nat \<times> real list" where
  "retry_configured cfg fn s =
     retry_loop (max_retries cfg)
       (wait_exponential 1 (retry_base_seconds cfg) (retry_max_seconds cfg)) fn 1 s"

text \<open>
  Two ways an action can behave, as predicates over its runs. \<open>fails_then_succeeds fn k s v s'\<close>:
  started in state \<open>s\<close>, the action raises an \<open>Exception\<close> on each of its first \<open>k\<close> invocations
  and returns \<open>v\<close> on the next one, leaving state \<open>s'\<close>. \<open>fails_times fn k s e s'\<close>: it raises an
  \<open>Exception\<close> on each of its first \<open>k \<ge> 1\<close> invocations, the last of them being \<open>e\<close>, leaving
  state \<open>s'\<close>.
\<close>

fun fails_then_succeeds ::
  "('s \<Rightarrow> (exception + 'a) \<times> 's) \<Rightarrow> nat \<Rightarrow> 's \<Rightarrow> 'a \<Rightarrow> 's \<Rightarrow> bool" where
  "fails_then_succeeds fn 0 s v s' = (fn s = (Inr v, s'))"
| "fails_then_succeeds fn (Suc k) s v s' =
     (case fn s of
        (Inl e, s1) \<Rightarrow> is_Exception e \<and> fails_then_succeeds fn k s1 v s'
      | (Inr u, s1) \<Rightarrow> False)"

fun fails_times ::
  "('s \<Rightarrow> (exception + 'a) \<times> 's) \<Rightarrow> nat \<Rightarrow> 's \<Rightarrow> exception \<Rightarrow> 's \<Rightarrow> bool" where
  "fails_times fn 0 s e s' = False"
| "fails_times fn (Suc k) s e s' =
     (case fn s of
        (Inl e1, s1) \<Rightarrow>
          is_Exception e1 \<and> (if k = 0 then e1 = e \<and> s1 = s' else fails_times fn k s1 e s')
      | (Inr u, s1) \<Rightarrow> False)"

definition outcome :: "'r \<times> 's \<times> nat \<times> real list \<Rightarrow> 'r" where
  "outcome r = fst r"

definition final_state :: "'r \<times> 's \<times> nat \<times> real list \<Rightarrow> 's" where
  "final_state r = fst (snd r)"

definition invocations :: "'r \<times> 's \<times> nat \<times> real list \<Rightarrow> nat" where
  "invocations r = fst (snd (snd r))"

definition sleeps :: "'r \<times> 's \<times> nat \<times> real list \<Rightarrow> real list" where
  "sleeps r = snd (snd (snd r))"

text \<open>
  The delay the specification gives for the wait after the \<open>n\<close>-th failed attempt:
  \<open>min(maxDelay, baseDelay * 2^(n-1))\<close>. It is stated from the specification, to be compared
  with \<open>wait_exponential\<close> as \<open>retry_configured\<close> calls it.
\<close>

definition spec_delay :: "settings \<Rightarrow> nat \<Rightarrow> real" where
  "spec_delay cfg n = min (retry_max_seconds cfg) (retry_base_seconds cfg * 2 ^ (n - 1))"

section \<open>JSON values, dictionaries and strings\<close>

text \<open>
  The values that travel through request bodies, table rows and responses. A Python \<open>dict\<close>
  is an association list with distinct keys; \<open>None\<close> is \<open>JNull\<close>. Numbers are integers: the
  code under study writes and tests only 0, 5 and 100.
\<close>

datatype json =
    JNull
  | JBool bool
  | JNum int
  | JStr string
  | JArr "json list"
  | JObj "(string \<times> json) list"

type_synonym dict = "(string \<times> json) list"

text \<open>Python's truth value of an object, as \<open>if x\<close>, \<open>not x\<close> and \<open>x or y\<close> test it.\<close>

fun truthy :: "json \<Rightarrow> bool" where
  "truthy JNull = False"
| "truthy (JBool b) = b"
| "truthy (JNum n) = (n \<noteq> 0)"
| "truthy (JStr s) = (s \<noteq> [])"
| "truthy (JArr xs) = (xs \<noteq> [])"
| "truthy (JObj kvs) = (kvs \<noteq> [])"

definition por :: "json \<Rightarrow> json \<Rightarrow> json" where
  "por a b = (if truthy a then a else b)"

text \<open>\<open>d.get(k)\<close>, \<open>d[k] = v\<close> and the merge of a partial row into a row.\<close>

definition dget :: "dict \<Rightarrow> string \<Rightarrow> json" where
  "dget d k = (case map_of d k of None \<Rightarrow> JNull | Some v \<Rightarrow> v)"

definition dset :: "dict \<Rightarrow> string \<Rightarrow> json \<Rightarrow> dict" where
  "dset d k v = AList.update k v d"

fun dict_update :: "dict \<Rightarrow> dict \<Rightarrow> dict" where
  "dict_update d [] = d"
| "dict_update d ((k, v) # changes) = dict_update (dset d k v) changes"

text \<open>
  \<open>str.strip()\<close> removes the leading and trailing characters for which \<open>str.isspace()\<close> holds;
  a string is a list of code points below 256, among which these are the white space.
\<close>

definition is_space :: "char \<Rightarrow> bool" where
  "is_space c = (c \<in> set [CHR 0x09, CHR 0x0A, CHR 0x0B, CHR 0x0C, CHR 0x0D, CHR 0x1C, CHR 0x1D,
     CHR 0x1E, CHR 0x1F, CHR 0x20, CHR 0x85, CHR 0xA0])"

definition strip :: "string \<Rightarrow> string" where
  "strip s = rev (dropWhile is_space (rev (dropWhile is_space s)))"

text \<open>\<open>s.replace(old, new)\<close> for a non-empty \<open>old\<close>, the only use the code makes of it.\<close>

function replace_str :: "string \<Rightarrow> string \<Rightarrow> string \<Rightarrow> string" where
  "replace_str old new s =
     (if s = [] \<or> old = [] then s
      else if take (length old) s = old then new @ replace_str old new (drop (length old) s)
      else hd s # replace_str old new (tl s))"
  by pat_completeness auto
termination
  by (relation "measure (\<lambda>(old, new, s). length s)") auto

declare replace_str.simps [simp del]

text \<open>\<open>str(n)\<close> for a natural number, and \<open>path.split("/")[-1]\<close>.\<close>

function str_nat :: "nat \<Rightarrow> string" where
  "str_nat n =
     (if n < 10 then [char_of (48 + n)] else str_nat (n div 10) @ [char_of (48 + n mod 10)])"
  by pat_completeness auto
termination
  by (relation "measure id") auto

declare str_nat.simps [simp del]

definition last_segment :: "string \<Rightarrow> string" where
  "last_segment path = rev (takeWhile (\<lambda>c. c \<noteq> CHR ''/'') (rev path))"

section \<open>The environment and the state of the process\<close>

text \<open>
  What the code reaches outside the process is a parameter of the model. Each field is
  indexed by how many times it has been consulted, so that two calls may answer differently:
  \<^item> \<open>auth_get_user\<close>: \<open>supabase.auth.get_user(token)\<close>; it raises, or gives the id of the
    user of the token, or no user;
  \<^item> \<open>store_fault\<close>: whether the \<open>n\<close>-th request sent to the job table raises, and what;
  \<^item> \<open>data_repository\<close>: lines 86 to 91 of \<open>_generate_workflow_payload\<close>, the reads of the
    data directory that build the system prompt of the \<open>n\<close>-th generation (they raise
    \<open>FileNotFoundError\<close> when a data file is missing);
  \<^item> \<open>ollama_post\<close>: the HTTP exchange of \<open>_call_ollama\<close> (\<open>client.post\<close>,
    \<open>raise_for_status\<close>, \<open>response.json()\<close>) of the \<open>n\<close>-th generation;
  \<^item> \<open>json_loads\<close>: \<open>json.loads\<close>, \<open>None\<close> standing for \<open>JSONDecodeError\<close>;
  \<^item> \<open>now_ms\<close>, \<open>now_iso\<close>: the \<open>n\<close>-th reading of the clock, as milliseconds since the epoch
    and as an ISO 8601 string;
  \<^item> \<open>randint\<close>: the \<open>n\<close>-th draw of the random generator.
\<close>

record env =
  auth_get_user :: "string \<Rightarrow> exception + string option"
  store_fault :: "nat \<Rightarrow> exception option"
  data_repository :: "nat \<Rightarrow> string \<Rightarrow> exception + string"
  ollama_post :: "nat \<Rightarrow> string \<Rightarrow> string \<Rightarrow> exception + json"
  json_loads :: "string \<Rightarrow> json option"
  now_ms :: "nat \<Rightarrow> nat"
  now_iso :: "nat \<Rightarrow> string"
  randint :: "nat \<Rightarrow> nat"

datatype store_request = Select string | Insert string | Update string

text \<open>
  The state: the rows of the table \<open>workflow_generation_jobs\<close> by id, the requests sent to
  the table so far, the number of generations started, of clock readings and of random
  draws, the log records written, and the two pieces of state of the task queue that a
  worker loop touches (the stop event and the count of \<open>task_done\<close> calls).
\<close>

record world =
  jobs :: "string \<rightharpoonup> dict"
  store_requests :: "store_request list"
  gen_calls :: nat
  clock_reads :: nat
  rand_draws :: nat
  logs :: "(string \<times> string) list"
  stop_event :: bool
  tasks_done :: nat

definition log_record :: "string \<Rightarrow> string \<Rightarrow> world \<Rightarrow> world" where
  "log_record level msg w = w\<lparr>logs := logs w @ [(level, msg)]\<rparr>"

definition read_clock :: "world \<Rightarrow> nat \<times> world" where
  "read_clock w = (clock_reads w, w\<lparr>clock_reads := Suc (clock_reads w)\<rparr>)"

definition draw_random :: "world \<Rightarrow> nat \<times> world" where
  "draw_random w = (rand_draws w, w\<lparr>rand_draws := Suc (rand_draws w)\<rparr>)"

text \<open>
  Modelled from the spec: the JobStore, which the code reaches through
  \<open>get_supabase_client\<close> of app/supabase_client.py, a module that is not among the sources.
  The specification gives it three operations, \<open>create(job)\<close>, \<open>getById(id) -> Job|absent\<close>
  and \<open>update(id, partialFields)\<close>, the id being the sole lookup key. Every request is
  counted and may raise (\<open>store_fault\<close>); a request that raises changes no row. An insert
  under an id that is taken raises and changes nothing; an update of an absent id changes
  nothing.
\<close>

definition store_call :: "env \<Rightarrow> store_request \<Rightarrow> world \<Rightarrow> exception option \<times> world" where
  "store_call env rq w =
     (store_fault env (length (store_requests w)), w\<lparr>store_requests := store_requests w @ [rq]\<rparr>)"

definition select_job :: "env \<Rightarrow> string \<Rightarrow> world \<Rightarrow> (exception + dict option) \<times> world" where
  "select_job env job_id w =
     (case store_call env (Select job_id) w of
        (Some e, w') \<Rightarrow> (Inl e, w')
      | (None, w') \<Rightarrow> (Inr (jobs w' job_id), w'))"

definition insert_job :: "env \<Rightarrow> string \<Rightarrow> dict \<Rightarrow> world \<Rightarrow> exception option \<times> world" where
  "insert_job env job_id row w =
     (case store_call env (Insert job_id) w of
        (Some e, w') \<Rightarrow> (Some e, w')
      | (None, w') \<Rightarrow>
          (case jobs w' job_id of
             Some old \<Rightarrow> (Some (Error ''APIError'' ''duplicate key value violates unique constraint''), w')
           | None \<Rightarrow> (None, w'\<lparr>jobs := (jobs w')(job_id \<mapsto> row)\<rparr>)))"

definition update_job :: "env \<Rightarrow> string \<Rightarrow> dict \<Rightarrow> world \<Rightarrow> exception option \<times> world" where
  "update_job env job_id changes w =
     (case store_call env (Update job_id) w of
        (Some e, w') \<Rightarrow> (Some e, w')
      | (None, w') \<Rightarrow>
          (case jobs w' job_id of
             None \<Rightarrow> (None, w')
           | Some row \<Rightarrow> (None, w'\<lparr>jobs := (jobs w')(job_id \<mapsto> dict_update row changes)\<rparr>)))"

section \<open>Requests and responses\<close>

text \<open>
  The parts of a \<open>Request\<close> the handlers read: the method, the URL path, the
  \<open>Authorization\<close> header and the body as \<open>request.json()\<close> gives it (\<open>Inl\<close> the message of
  the exception it raises on a body that is not JSON). A \<open>Response\<close> is its status code and
  the dictionary that \<open>_json_response\<close> serialises, or no content.
\<close>

record request =
  req_method :: string
  req_path :: string
  req_authorization :: "string option"
  req_body :: "string + json"

record response =
  status_code :: nat
  content :: "dict option"

definition json_response :: "dict \<Rightarrow> nat \<Rightarrow> response" where
  "json_response payload status = \<lparr>status_code = status, content = Some payload\<rparr>"

definition cors_preflight :: response where
  "cors_preflight = \<lparr>status_code = 200, content = None\<rparr>"

text \<open>
  Lines 154 to 160 and 200 to 206, the same in both handlers: the requester's user id, if the
  request carries a non-empty \<open>Authorization\<close> header whose token resolves to a user.
\<close>

definition resolve_user :: "env \<Rightarrow> request \<Rightarrow> exception + string option" where
  "resolve_user env request =
     (case req_authorization request of
        None \<Rightarrow> Inr None
      | Some auth_header \<Rightarrow>
          if auth_header = [] then Inr None
          else auth_get_user env (replace_str ''bearer '' [] (replace_str ''Bearer '' [] auth_header)))"

section \<open>Generation (app/services/workflow\_generation.py)\<close>

definition attribute_error :: "string \<Rightarrow> exception" where
  "attribute_error attr = Error ''AttributeError'' (''object has no attribute '' @ attr)"

definition extract_prompt :: "json \<Rightarrow> exception + string" where
  "extract_prompt payload =
     (case payload of
        JObj d \<Rightarrow>
          (case por (por (dget d ''prompt'') (dget d ''description'')) (JStr []) of
             JStr prompt \<Rightarrow> Inr (strip prompt)
           | JNull \<Rightarrow> Inl (attribute_error ''strip'')
           | JBool b \<Rightarrow> Inl (attribute_error ''strip'')
           | JNum n \<Rightarrow> Inl (attribute_error ''strip'')
           | JArr xs \<Rightarrow> Inl (attribute_error ''strip'')
           | JObj kvs \<Rightarrow> Inl (attribute_error ''strip''))
      | JNull \<Rightarrow> Inl (attribute_error ''get'')
      | JBool b \<Rightarrow> Inl (attribute_error ''get'')
      | JNum n \<Rightarrow> Inl (attribute_error ''get'')
      | JStr s \<Rightarrow> Inl (attribute_error ''get'')
      | JArr xs \<Rightarrow> Inl (attribute_error ''get''))"

definition call_ollama :: "env \<Rightarrow> nat \<Rightarrow> string \<Rightarrow> string \<Rightarrow> exception + dict" where
  "call_ollama env n prompt system_prompt =
     (case ollama_post env n prompt system_prompt of
        Inl e \<Rightarrow> Inl e
      | Inr data \<Rightarrow>
          (case data of
             JObj d \<Rightarrow>
               (case (case map_of d ''message'' of None \<Rightarrow> JObj [] | Some m \<Rightarrow> m) of
                  JObj m \<Rightarrow> Inr [(''raw'', por (dget m ''content'') (JStr []))]
                | JNull \<Rightarrow> Inl (attribute_error ''get'')
                | JBool b \<Rightarrow> Inl (attribute_error ''get'')
                | JNum n \<Rightarrow> Inl (attribute_error ''get'')
                | JStr s \<Rightarrow> Inl (attribute_error ''get'')
                | JArr xs \<Rightarrow> Inl (attribute_error ''get''))
           | JNull \<Rightarrow> Inl (attribute_error ''get'')
           | JBool b \<Rightarrow> Inl (attribute_error ''get'')
           | JNum n \<Rightarrow> Inl (attribute_error ''get'')
           | JStr s \<Rightarrow> Inl (attribute_error ''get'')
           | JArr xs \<Rightarrow> Inl (attribute_error ''get'')))"

definition fallback_workflow :: "string \<Rightarrow> json" where
  "fallback_workflow prompt =
     JObj [
       (''nodes'', JArr [
          JObj [(''id'', JStr ''trigger''), (''type'', JStr ''trigger''),
                (''position'', JObj [(''x'', JNum 200), (''y'', JNum 100)]),
                (''data'', JObj [(''label'', JStr ''Trigger''), (''type'', JStr ''trigger''),
                                 (''category'', JStr ''trigger''), (''config'', JObj [])])],
          JObj [(''id'', JStr ''action''), (''type'', JStr ''action''),
                (''position'', JObj [(''x'', JNum 500), (''y'', JNum 100)]),
                (''data'', JObj [(''label'', JStr ''Action''), (''type'', JStr ''action''),
                                 (''category'', JStr ''action''),
                                 (''config'', JObj [(''prompt'', JStr prompt)])])]]),
       (''edges'', JArr [JObj [(''id'', JStr ''edge-1''), (''source'', JStr ''trigger''),
                               (''target'', JStr ''action'')]]),
       (''explanation'', JStr ''Generated a minimal workflow from the prompt.''),
       (''status'', JStr ''completed'')]"

text \<open>
  The \<open>try\<close> block of \<open>_generate_workflow_payload\<close> (lines 95 to 102): the value it returns,
  or the exception raised inside it.
\<close>

definition generation_attempt :: "env \<Rightarrow> nat \<Rightarrow> string \<Rightarrow> string \<Rightarrow> exception + json" where
  "generation_attempt env n prompt system_prompt =
     (case call_ollama env n prompt system_prompt of
        Inl e \<Rightarrow> Inl e
      | Inr llm \<Rightarrow>
          (case (case map_of llm ''raw'' of None \<Rightarrow> JStr [] | Some v \<Rightarrow> v) of
             JStr answer \<Rightarrow>
               (let raw = strip answer in
                if raw \<noteq> [] then
                  (case json_loads env raw of
                     Some v \<Rightarrow> Inr v
                   | None \<Rightarrow> Inr (fallback_workflow prompt))
                else Inr (fallback_workflow prompt))
           | JNull \<Rightarrow> Inl (attribute_error ''strip'')
           | JBool b \<Rightarrow> Inl (attribute_error ''strip'')
           | JNum k \<Rightarrow> Inl (attribute_error ''strip'')
           | JArr xs \<Rightarrow> Inl (attribute_error ''strip'')
           | JObj kvs \<Rightarrow> Inl (attribute_error ''strip'')))"

text \<open>
  \<open>_generate_workflow_payload\<close>. An empty prompt raises \<open>ValueError\<close>; a failure of the data
  repository is raised as it is; an \<open>Exception\<close> raised inside the \<open>try\<close> block, the call of
  the language model included, is logged as a warning and replaced by the fallback workflow.
\<close>

definition generate_workflow_payload :: "env \<Rightarrow> json \<Rightarrow> world \<Rightarrow> (exception + json) \<times> world" where
  "generate_workflow_payload env payload w0 =
     (let n = gen_calls w0; w = w0\<lparr>gen_calls := Suc n\<rparr> in
      case extract_prompt payload of
        Inl e \<Rightarrow> (Inl e, w)
      | Inr prompt \<Rightarrow>
          if prompt = [] then
            (Inl (Error ''ValueError'' ''Prompt is required and must be a non-empty string''), w)
          else
            (case data_repository env n prompt of
               Inl e \<Rightarrow> (Inl e, w)
             | Inr template \<Rightarrow>
                 (let system_prompt =
                    (if template = [] then ''Return JSON with keys: nodes, edges, explanation.''
                     else template)
                  in case generation_attempt env n prompt system_prompt of
                       Inr v \<Rightarrow> (Inr v, w)
                     | Inl exc \<Rightarrow>
                         if is_Exception exc then
                           (Inr (fallback_workflow prompt),
                            log_record ''WARNING'' ''Workflow generation fallback'' w)
                         else (Inl exc, w))))"

section \<open>The job pipeline (app/services/workflow\_generation.py)\<close>

text \<open>
  \<open>generate_workflow_async\<close>, the creation of a job. The job id is
  \<open>job_<milliseconds>_<random number between 100000 and 999999>\<close>.
\<close>

definition make_job_id :: "nat \<Rightarrow> nat \<Rightarrow> string" where
  "make_job_id ms r = ''job_'' @ str_nat ms @ ''_'' @ str_nat (100000 + r mod 900000)"

definition user_id_json :: "string option \<Rightarrow> json" where
  "user_id_json user_id = (case user_id of None \<Rightarrow> JNull | Some uid \<Rightarrow> JStr uid)"

definition new_job_row :: "string \<Rightarrow> string option \<Rightarrow> string \<Rightarrow> dict \<Rightarrow> dict" where
  "new_job_row job_id user_id prompt payload =
     [(''id'', JStr job_id),
      (''user_id'', user_id_json user_id),
      (''prompt'', JStr prompt),
      (''mode'', por (dget payload ''mode'') (JStr ''create'')),
      (''current_workflow'', dget payload ''currentWorkflow''),
      (''execution_history'', por (dget payload ''executionHistory'') (JArr [])),
      (''config'', por (dget payload ''config'') (JObj [])),
      (''status'', JStr ''queued''),
      (''progress_percentage'', JNum 0)]"

definition accepted_body :: "string \<Rightarrow> dict" where
  "accepted_body job_id =
     [(''job_id'', JStr job_id),
      (''status'', JStr ''queued''),
      (''message'', JStr ''Workflow generation job created. Poll /workflow-status/{job_id} for results.''),
      (''estimated_completion_time'', JStr ''30-120 seconds'')]"

definition payload_dict :: "json \<Rightarrow> dict" where
  "payload_dict payload = (case payload of JObj d \<Rightarrow> d | _ \<Rightarrow> [])"

definition generate_workflow_async :: "env \<Rightarrow> request \<Rightarrow> world \<Rightarrow> (exception + response) \<times> world" where
  "generate_workflow_async env request w =
     (if req_method request = ''OPTIONS'' then (Inr cors_preflight, w)
      else
        (case req_body request of
           Inl details \<Rightarrow>
             (Inr (json_response [(''error'', JStr ''Invalid JSON in request body''),
                                  (''details'', JStr details)] 400), w)
         | Inr payload \<Rightarrow>
             (case extract_prompt payload of
                Inl e \<Rightarrow> (Inl e, w)
              | Inr prompt \<Rightarrow>
                  if prompt = [] then
                    (Inr (json_response
                       [(''error'', JStr ''Prompt is required and must be a non-empty string'')] 400), w)
                  else
                    (case resolve_user env request of
                       Inl e \<Rightarrow> (Inl e, w)
                     | Inr user_id \<Rightarrow>
                         (let (t, w1) = read_clock w;
                              (d, w2) = draw_random w1;
                              job_id = make_job_id (now_ms env t) (randint env d)
                          in case insert_job env job_id
                                    (new_job_row job_id user_id prompt (payload_dict payload)) w2 of
                               (Some e, w3) \<Rightarrow> (Inl e, w3)
                             | (None, w3) \<Rightarrow> (Inr (json_response (accepted_body job_id) 202), w3))))))"

text \<open>
  \<open>workflow_status\<close>, the status read. \<open>job_id_arg\<close> is the keyword argument of the function:
  the route of app/routers/jobs.py leaves it out, the one of app/api/v1/workflow.py gives it.
\<close>

definition requested_job_id :: "request \<Rightarrow> string option \<Rightarrow> string" where
  "requested_job_id request job_id_arg =
     (case job_id_arg of
        None \<Rightarrow> last_segment (req_path request)
      | Some j \<Rightarrow> if j \<noteq> [] then j else last_segment (req_path request))"

definition job_id_missing :: "string \<Rightarrow> bool" where
  "job_id_missing job_id = (job_id = [] \<or> job_id \<in> set [''workflow-status'', ''status''])"

definition owner_mismatch :: "string option \<Rightarrow> dict \<Rightarrow> bool" where
  "owner_mismatch user_id job =
     (case user_id of
        None \<Rightarrow> False
      | Some uid \<Rightarrow> uid \<noteq> [] \<and> truthy (dget job ''user_id'') \<and> dget job ''user_id'' \<noteq> JStr uid)"

text \<open>Lines 216 to 234: the dictionary of the 200 response, built key by key.\<close>

definition status_view :: "dict \<Rightarrow> json \<Rightarrow> dict" where
  "status_view job job_id_value =
     (let response =
        [(''job_id'', job_id_value),
         (''status'', dget job ''status''),
         (''progress_percentage'', por (dget job ''progress_percentage'') (JNum 0)),
         (''current_phase'', dget job ''current_phase''),
         (''created_at'', dget job ''created_at''),
         (''started_at'', dget job ''started_at''),
         (''finished_at'', dget job ''finished_at''),
         (''duration_ms'', dget job ''duration_ms'')];
        response =
          (if dget job ''status'' = JStr ''completed'' \<and> truthy (dget job ''workflow_result'')
           then dset response ''workflow'' (dget job ''workflow_result'') else response);
        response =
          (if dget job ''status'' = JStr ''failed'' \<and> truthy (dget job ''error_message'')
           then dset (dset response ''error'' (dget job ''error_message''))
                  ''error_details'' (dget job ''error_details'')
           else response);
        response =
          (if truthy (dget job ''progress_logs'')
           then dset response ''progress_logs'' (dget job ''progress_logs'') else response);
        response =
          (if truthy (dget job ''observability'')
           then dset response ''observability'' (dget job ''observability'') else response)
      in response)"

definition workflow_status ::
  "env \<Rightarrow> request \<Rightarrow> string option \<Rightarrow> world \<Rightarrow> (exception + response) \<times> world" where
  "workflow_status env request job_id_arg w =
     (if req_method request = ''OPTIONS'' then (Inr cors_preflight, w)
      else
        (let job_id = requested_job_id request job_id_arg in
         if job_id_missing job_id then
           (Inr (json_response
              [(''error'', JStr ''Job ID is required''),
               (''message'', JStr ''Provide job_id in URL path: /workflow-status/{job_id}'')] 400), w)
         else
           (case resolve_user env request of
              Inl e \<Rightarrow> (Inl e, w)
            | Inr user_id \<Rightarrow>
                (case select_job env job_id w of
                   (Inl e, w1) \<Rightarrow> (Inl e, w1)
                 | (Inr None, w1) \<Rightarrow>
                     (Inr (json_response
                        [(''error'', JStr ''Job not found''),
                         (''message'', JStr (''Job with ID '' @ job_id @ '' not found''))] 404), w1)
                 | (Inr (Some job), w1) \<Rightarrow>
                     if job = [] then
                       (Inr (json_response
                          [(''error'', JStr ''Job not found''),
                           (''message'', JStr (''Job with ID '' @ job_id @ '' not found''))] 404), w1)
                     else if owner_mismatch user_id job then
                       (Inr (json_response
                          [(''error'', JStr ''Forbidden''),
                           (''message'', JStr ''You do not have access to this job'')] 403), w1)
                     else
                       (case map_of job ''id'' of
                          None \<Rightarrow> (Inl (Error ''KeyError'' ''id''), w1)
                        | Some v \<Rightarrow> (Inr (json_response (status_view job v) 200), w1))))))"

text \<open>
  \<open>process_job\<close> without its decorator. \<open>record_failure\<close> is its \<open>except Exception\<close> clause:
  an exception that is not an instance of \<open>Exception\<close> passes through it; for any other the
  failed state is written, and an exception raised by that write leaves the function.
\<close>

definition record_failure :: "env \<Rightarrow> string \<Rightarrow> exception \<Rightarrow> world \<Rightarrow> (exception + unit) \<times> world" where
  "record_failure env job_id exc w =
     (if \<not> is_Exception exc then (Inl exc, w)
      else
        (let (t, w1) = read_clock w in
         case update_job env job_id
                [(''status'', JStr ''failed''),
                 (''error_message'', JStr (exc_str exc)),
                 (''finished_at'', JStr (now_iso env t))] w1 of
           (Some e, w2) \<Rightarrow> (Inl e, w2)
         | (None, w2) \<Rightarrow> (Inr (), log_record ''ERROR'' ''Workflow generation job failed'' w2)))"

definition job_payload :: "dict \<Rightarrow> json" where
  "job_payload job =
     JObj [(''prompt'', dget job ''prompt''),
           (''mode'', por (dget job ''mode'') (JStr ''create'')),
           (''currentWorkflow'', dget job ''current_workflow''),
           (''executionHistory'', por (dget job ''execution_history'') (JArr [])),
           (''config'', por (dget job ''config'') (JObj []))]"

definition job_not_found :: "string \<Rightarrow> exception" where
  "job_not_found job_id = Error ''ValueError'' (''Job not found: '' @ job_id)"

definition run_generation :: "env \<Rightarrow> string \<Rightarrow> dict \<Rightarrow> world \<Rightarrow> (exception + unit) \<times> world" where
  "run_generation env job_id job w =
     (case generate_workflow_payload env (job_payload job) w of
        (Inl exc, w1) \<Rightarrow> record_failure env job_id exc w1
      | (Inr result, w1) \<Rightarrow>
          (let (t, w2) = read_clock w1 in
           case update_job env job_id
                  [(''status'', JStr ''completed''),
                   (''progress_percentage'', JNum 100),
                   (''workflow_result'', result),
                   (''finished_at'', JStr (now_iso env t))] w2 of
             (Some exc, w3) \<Rightarrow> record_failure env job_id exc w3
           | (None, w3) \<Rightarrow> (Inr (), log_record ''INFO'' ''Workflow generation job completed'' w3)))"

definition process_job_body :: "env \<Rightarrow> string \<Rightarrow> world \<Rightarrow> (exception + unit) \<times> world" where
  "process_job_body env job_id w =
     (case select_job env job_id w of
        (Inl e, w1) \<Rightarrow> (Inl e, w1)
      | (Inr None, w1) \<Rightarrow> (Inl (job_not_found job_id), w1)
      | (Inr (Some job), w1) \<Rightarrow>
          if job = [] then (Inl (job_not_found job_id), w1)
          else
            (let (t, w2) = read_clock w1 in
             case update_job env job_id
                    [(''status'', JStr ''running''),
                     (''progress_percentage'', JNum 5),
                     (''started_at'', JStr (now_iso env t))] w2 of
               (Some e, w3) \<Rightarrow> (Inl e, w3)
             | (None, w3) \<Rightarrow> run_generation env job_id job w3))"

text \<open>\<open>process_job\<close> as decorated with \<open>@retry_configured()\<close>.\<close>

definition process_job ::
  "settings \<Rightarrow> env \<Rightarrow> string \<Rightarrow> world \<Rightarrow> (exception + unit) \<times> world \<times> nat \<times> real list" where
  "process_job cfg env job_id w = retry_configured cfg (process_job_body env job_id) w"

section \<open>The worker loop (app/background/task\_queue.py)\<close>

text \<open>
  A queued task is a zero-argument coroutine: here a function of the state that returns the
  exception it raised, if any. \<open>_worker_loop\<close> is run over the tasks the worker is going to
  take from the queue, in order. It ends in one of three ways: blocked in \<open>queue.get()\<close> on an
  empty queue, left through the loop condition once the stop event is set, or left by an
  exception that \<open>except Exception\<close> does not catch. What other coroutines do while a task
  is suspended, setting the stop event included, counts as part of what the task does to
  the state.
\<close>

type_synonym task = "world \<Rightarrow> exception option \<times> world"

datatype loop_exit = Waiting | Stopped | Crashed exception

definition task_done :: "world \<Rightarrow> world" where
  "task_done w = w\<lparr>tasks_done := Suc (tasks_done w)\<rparr>"

fun worker_loop :: "nat \<Rightarrow> task list \<Rightarrow> world \<Rightarrow> loop_exit \<times> world" where
  "worker_loop idx [] w = (if stop_event w then Stopped else Waiting, w)"
| "worker_loop idx (job # queue) w =
     (if stop_event w then (Stopped, w)
      else
        (case job w of
           (None, w1) \<Rightarrow> worker_loop idx queue (task_done w1)
         | (Some exc, w1) \<Rightarrow>
             if is_Exception exc then
               worker_loop idx queue (task_done (log_record ''ERROR'' ''Background task failed'' w1))
             else (Crashed exc, task_done w1)))"

text \<open>The task that \<open>process_job_route\<close> submits: \<open>lambda: process_job(job_id)\<close>.\<close>

definition process_job_task :: "settings \<Rightarrow> env \<Rightarrow> string \<Rightarrow> task" where
  "process_job_task cfg env job_id w =
     (case process_job cfg env job_id w of
        (Inl e, w', n, ds) \<Rightarrow> (Some e, w')
      | (Inr u, w', n, ds) \<Rightarrow> (None, w'))"

section \<open>Sequences of operations\<close>

text \<open>
  The operations a job can meet: the creation of a job, a worker running
  \<open>process(job_id)\<close>, and a status read. \<open>run_ops\<close> executes a sequence of them on the state.
\<close>

datatype operation =
    Create request
  | Process string
  | Status request "string option"

fun step :: "settings \<Rightarrow> env \<Rightarrow> world \<Rightarrow> operation \<Rightarrow> world" where
  "step cfg env w (Create request) = snd (generate_workflow_async env request w)"
| "step cfg env w (Process job_id) = snd (worker_loop 0 [process_job_task cfg env job_id] w)"
| "step cfg env w (Status request job_id_arg) = snd (workflow_status env request job_id_arg w)"

definition run_ops :: "settings \<Rightarrow> env \<Rightarrow> world \<Rightarrow> operation list \<Rightarrow> world" where
  "run_ops cfg env w ops = foldl (step cfg env) w ops"

definition job_status :: "world \<Rightarrow> string \<Rightarrow> json option" where
  "job_status w job_id = map_option (\<lambda>job. dget job ''status'') (jobs w job_id)"

section \<open>Intermediate states\<close>

text \<open>
  The state \<open>process_job\<close> has reached when it enters its \<open>try\<close> block for a job that was
  found: the lookup and the write of the running state have been sent, the clock has been
  read once, and the row carries the running state.
\<close>

definition running_fields :: "env \<Rightarrow> world \<Rightarrow> dict" where
  "running_fields env w =
     [(''status'', JStr ''running''), (''progress_percentage'', JNum 5),
      (''started_at'', JStr (now_iso env (clock_reads w)))]"

definition running_world :: "env \<Rightarrow> string \<Rightarrow> dict \<Rightarrow> world \<Rightarrow> world" where
  "running_world env job_id job w =
     w\<lparr>clock_reads := Suc (clock_reads w),
       store_requests := store_requests w @ [Select job_id, Update job_id],
       jobs := (jobs w)(job_id \<mapsto> dict_update job (running_fields env w))\<rparr>"

section \<open>Example actions\<close>

text \<open>
  Actions over a counter of their own invocations. \<open>fail_until k\<close> raises a \<open>TimeoutError\<close>
  whose message tells the invocation apart on each of its first \<open>k\<close> invocations and returns
  afterwards; \<open>always_fails\<close> raises on every invocation; \<open>cancelled_once\<close> raises
  \<open>asyncio.CancelledError\<close> on its first invocation and returns afterwards.
\<close>

definition fail_until :: "nat \<Rightarrow> nat \<Rightarrow> (exception + string) \<times> nat" where
  "fail_until k n =
     (if n < k then Inl (Error ''TimeoutError'' (replicate (Suc n) CHR ''t'')) else Inr ''ok'', Suc n)"

definition always_fails :: "nat \<Rightarrow> (exception + string) \<times> nat" where
  "always_fails n = (Inl (Error ''TimeoutError'' (replicate (Suc n) CHR ''t'')), Suc n)"

definition cancelled_once :: "nat \<Rightarrow> (exception + string) \<times> nat" where
  "cancelled_once n =
     (if n = 0 then Inl (BaseError ''CancelledError'' []) else Inr ''ok'', Suc n)"

text \<open>
  Environments and states for the examples. In \<open>quiet_env\<close> nothing fails: no token resolves
  to a user, the store never raises, and the language model answers with a workflow.
  \<open>llm_down\<close> is \<open>quiet_env\<close> with a language model whose every call times out;
  \<open>repo_down\<close> is \<open>quiet_env\<close> with a data directory whose files are missing, so that every
  generation raises; \<open>repo_down_later\<close> loses the data files after the first generation.
\<close>

definition sample_workflow :: json where
  "sample_workflow = JObj [(''nodes'', JArr [JStr ''n1'']), (''edges'', JArr [JStr ''e1''])]"

definition quiet_env :: env where
  "quiet_env =
     \<lparr>auth_get_user = (\<lambda>token. Inr None),
      store_fault = (\<lambda>n. None),
      data_repository = (\<lambda>n prompt. Inr ''You design workflows.''),
      ollama_post = (\<lambda>n prompt system_prompt.
        Inr (JObj [(''message'', JObj [(''content'', JStr ''{...}'')])])),
      json_loads = (\<lambda>raw. Some sample_workflow),
      now_ms = (\<lambda>n. 1700000000000 + n),
      now_iso = (\<lambda>n. ''2023-11-14T22:13:2'' @ str_nat (n mod 10) @ ''+00:00''),
      randint = (\<lambda>n. n)\<rparr>"

definition llm_down :: env where
  "llm_down = quiet_env\<lparr>ollama_post := (\<lambda>n prompt system_prompt. Inl (Error ''TimeoutError'' ''timed out''))\<rparr>"

definition repo_down :: env where
  "repo_down = quiet_env\<lparr>data_repository :=
     (\<lambda>n prompt. Inl (Error ''FileNotFoundError''
        (''Data file not found: prompt_templates.json #'' @ str_nat n)))\<rparr>"

definition repo_down_later :: env where
  "repo_down_later = quiet_env\<lparr>data_repository :=
     (\<lambda>n prompt. if n = 0 then Inr ''You design workflows.''
        else Inl (Error ''FileNotFoundError'' ''Data file not found: prompt_templates.json''))\<rparr>"

definition empty_world :: world where
  "empty_world =
     \<lparr>jobs = Map.empty, store_requests = [], gen_calls = 0, clock_reads = 0, rand_draws = 0,
      logs = [], stop_event = False, tasks_done = 0\<rparr>"

definition post_request :: "json \<Rightarrow> request" where
  "post_request payload =
     \<lparr>req_method = ''POST'', req_path = ''/generate-workflow-async'',
      req_authorization = None, req_body = Inr payload\<rparr>"

definition get_request :: "string \<Rightarrow> string option \<Rightarrow> request" where
  "get_request path auth =
     \<lparr>req_method = ''GET'', req_path = path, req_authorization = auth,
      req_body = Inl ''Expecting value''\<rparr>"

text \<open>A state holding one job, of user \<open>alice\<close>, in the given status.\<close>

definition sample_job :: "string \<Rightarrow> dict" where
  "sample_job status =
     [(''id'', JStr ''job_1''), (''user_id'', JStr ''alice''), (''prompt'', JStr ''build a form''),
      (''status'', JStr status), (''progress_percentage'', JNum 0)]"

definition one_job_world :: "string \<Rightarrow> world" where
  "one_job_world status = empty_world\<lparr>jobs := [''job_1'' \<mapsto> sample_job status]\<rparr>"

section \<open>Properties of the retry policy\<close>

lemma retry_loop_succeeds:
  "fails_then_succeeds fn k s v s' \<Longrightarrow> int a + int k \<le> m \<Longrightarrow>
   retry_loop m w fn a s = (Inr v, s', a + k, map w [a..<a + k])"
proof (induction k arbitrary: a s)
  case 0
  then show ?case by (simp add: retry_loop.simps)
next
  case (Suc k)
  from Suc.prems(1) obtain e s1 where f: "fn s = (Inl e, s1)" "is_Exception e"
    and rest: "fails_then_succeeds fn k s1 v s'"
    by (auto split: prod.splits sum.splits)
  from Suc.prems(2) have "int (Suc a) + int k \<le> m" by simp
  from Suc.IH [OF rest this] have
    r: "retry_loop m w fn (Suc a) s1 = (Inr v, s', Suc a + k, map w [Suc a..<Suc a + k])" .
  from Suc.prems(2) have ns: "\<not> m \<le> int a" by simp
  show ?case
    using f ns r by (subst retry_loop.simps) (simp add: upt_rec [of a])
qed

lemma retry_loop_exhausts:
  "fails_times fn k s e s' \<Longrightarrow> m = int a + int k - 1 \<Longrightarrow>
   retry_loop m w fn a s = (Inl e, s', a + k - 1, map w [a..<a + k - 1])"
proof (induction k arbitrary: a s)
  case 0
  then show ?case by simp
next
  case (Suc k)
  from Suc.prems(1) obtain e1 s1 where f: "fn s = (Inl e1, s1)" "is_Exception e1"
    and rest: "if k = 0 then e1 = e \<and> s1 = s' else fails_times fn k s1 e s'"
    by (auto split: prod.splits sum.splits)
  show ?case
  proof (cases "k = 0")
    case True
    with f rest Suc.prems(2) show ?thesis
      by (subst retry_loop.simps) simp
  next
    case False
    with rest have ft: "fails_times fn k s1 e s'" by simp
    from Suc.prems(2) have m: "m = int (Suc a) + int k - 1" by simp
    from Suc.IH [OF ft m] have
      r: "retry_loop m w fn (Suc a) s1 = (Inl e, s', Suc a + k - 1, map w [Suc a..<Suc a + k - 1])" .
    from Suc.prems(2) False have ns: "\<not> m \<le> int a" by simp
    from False have u: "[a..<a + k] = a # [Suc a..<a + k]" by (simp add: upt_rec [of a])
    show ?thesis
      using f ns r u by (subst retry_loop.simps) simp
  qed
qed

lemma always_fails_times:
  "0 < k \<Longrightarrow> fails_times always_fails k n (Error ''TimeoutError'' (replicate (n + k) CHR ''t'')) (n + k)"
proof (induction k arbitrary: n)
  case 0
  then show ?case by simp
next
  case (Suc k)
  show ?case
  proof (cases "k = 0")
    case True
    then show ?thesis by (simp add: always_fails_def)
  next
    case False
    with Suc.IH [of "Suc n"] show ?thesis by (simp add: always_fails_def)
  qed
qed

lemma fail_until_succeeds:
  "n + k = j \<Longrightarrow> fails_then_succeeds (fail_until j) k n ''ok'' (Suc j)"
proof (induction k arbitrary: n)
  case 0
  then show ?case by (simp add: fail_until_def)
next
  case (Suc k)
  from Suc.prems have "Suc n + k = j" by simp
  from Suc.IH [OF this] Suc.prems show ?case by (simp add: fail_until_def)
qed

text \<open>
  Two limits of the policy, by the design of the library. A failure that is not an instance
  of \<open>Exception\<close> (here \<open>asyncio.CancelledError\<close>) is not retried, though the action would
  succeed on its second invocation. And the action is always invoked once: with
  \<open>max_retries = 0\<close> an action that always fails is invoked once, not zero times.
\<close>

lemma retry_policy_limits:
  "fails_then_succeeds cancelled_once 0 1 ''ok'' 2
   \<and> retry_configured default_settings cancelled_once 0
       = (Inl (BaseError ''CancelledError'' []), 1, 1, [])
   \<and> retry_configured (default_settings\<lparr>max_retries := 0\<rparr>) always_fails 0
       = (Inl (Error ''TimeoutError'' ''t''), 1, 1, [])"
  by (simp add: retry_configured_def retry_loop.simps cancelled_once_def always_fails_def
      default_settings_def)

text \<open>
  C4. For an action wrapped by \<open>retry_configured\<close>, a failure being an \<open>Exception\<close> it
  raises: if it fails on each of its first \<open>k\<close> invocations, \<open>k < max_retries\<close>, and then
  returns \<open>v\<close>, the wrapped call returns \<open>v\<close> and the action has been invoked exactly
  \<open>k + 1\<close> times; if it fails on each of its first \<open>max_retries\<close> invocations, the wrapped
  call raises the last of these errors, unchanged, after exactly \<open>max_retries\<close>
  invocations. (What is raised and is not an instance of \<open>Exception\<close> is raised again at
  once, after that one invocation.)
\<close>

theorem retry_policy_attempts:
  "(fails_then_succeeds fn k s v s' \<and> int k < max_retries cfg \<longrightarrow>
      outcome (retry_configured cfg fn s) = Inr v
      \<and> final_state (retry_configured cfg fn s) = s'
      \<and> invocations (retry_configured cfg fn s) = k + 1)
   \<and> (fails_times fn m s e s' \<and> max_retries cfg = int m \<longrightarrow>
      outcome (retry_configured cfg fn s) = Inl e
      \<and> final_state (retry_configured cfg fn s) = s'
      \<and> invocations (retry_configured cfg fn s) = m)
   \<and> (fn s = (Inl e, s') \<and> \<not> is_Exception e \<longrightarrow>
      retry_configured cfg fn s = (Inl e, s', 1, []))"
proof (intro conjI impI)
  assume a: "fails_then_succeeds fn k s v s' \<and> int k < max_retries cfg"
  then have "int 1 + int k \<le> max_retries cfg" by simp
  with a have r: "retry_configured cfg fn s
      = (Inr v, s', 1 + k,
         map (wait_exponential 1 (retry_base_seconds cfg) (retry_max_seconds cfg)) [1..<1 + k])"
    unfolding retry_configured_def by (simp only: retry_loop_succeeds)
  show "outcome (retry_configured cfg fn s) = Inr v" by (simp add: r outcome_def)
  show "final_state (retry_configured cfg fn s) = s'" by (simp add: r final_state_def)
  show "invocations (retry_configured cfg fn s) = k + 1" by (simp add: r invocations_def)
next
  assume a: "fails_times fn m s e s' \<and> max_retries cfg = int m"
  then have "max_retries cfg = int 1 + int m - 1" by simp
  with a have r: "retry_configured cfg fn s
      = (Inl e, s', 1 + m - 1,
         map (wait_exponential 1 (retry_base_seconds cfg) (retry_max_seconds cfg)) [1..<1 + m - 1])"
    unfolding retry_configured_def by (simp only: retry_loop_exhausts)
  show "outcome (retry_configured cfg fn s) = Inl e" by (simp add: r outcome_def)
  show "final_state (retry_configured cfg fn s) = s'" by (simp add: r final_state_def)
  show "invocations (retry_configured cfg fn s) = m" by (simp add: r invocations_def)
next
  assume "fn s = (Inl e, s') \<and> \<not> is_Exception e"
  then show "retry_configured cfg fn s = (Inl e, s', 1, [])"
    by (simp add: retry_configured_def retry_loop.simps)
qed

theorem retry_policy_attempts_witness:
  "fails_then_succeeds (fail_until 2) 2 0 ''ok'' 3
   \<and> int 2 < max_retries default_settings
   \<and> outcome (retry_configured default_settings (fail_until 2) 0) = Inr ''ok''
   \<and> invocations (retry_configured default_settings (fail_until 2) 0) = 3
   \<and> fails_times always_fails 3 0 (Error ''TimeoutError'' ''ttt'') 3
   \<and> max_retries default_settings = int 3
   \<and> outcome (retry_configured default_settings always_fails 0) = Inl (Error ''TimeoutError'' ''ttt'')
   \<and> invocations (retry_configured default_settings always_fails 0) = 3
   \<and> cancelled_once 0 = (Inl (BaseError ''CancelledError'' []), 1)
   \<and> \<not> is_Exception (BaseError ''CancelledError'' [])
   \<and> retry_configured default_settings cancelled_once 0 = (Inl (BaseError ''CancelledError'' []), 1, 1, [])"
proof -
  have h1: "fails_then_succeeds (fail_until 2) 2 0 ''ok'' 3"
    using fail_until_succeeds [of 0 2 2] by (simp add: numeral_3_eq_3)
  have h2: "int 2 < max_retries default_settings" by (simp add: default_settings_def)
  have h3: "fails_times always_fails 3 0 (Error ''TimeoutError'' ''ttt'') 3"
    using always_fails_times [of 3 0] by (simp add: numeral_3_eq_3)
  have h4: "max_retries default_settings = int 3" by (simp add: default_settings_def)
  have h5: "cancelled_once 0 = (Inl (BaseError ''CancelledError'' []), 1)
            \<and> \<not> is_Exception (BaseError ''CancelledError'' [])"
    by (simp add: cancelled_once_def)
  from retry_policy_attempts [where fn = "fail_until 2" and k = 2 and s = 0 and v = "''ok''"
      and s' = 3 and cfg = default_settings] h1 h2
  have c1: "outcome (retry_configured default_settings (fail_until 2) 0) = Inr ''ok''
            \<and> invocations (retry_configured default_settings (fail_until 2) 0) = 3"
    by simp
  from retry_policy_attempts [where fn = always_fails and m = 3 and s = 0
      and e = "Error ''TimeoutError'' ''ttt''" and s' = 3 and cfg = default_settings] h3 h4
  have c2: "outcome (retry_configured default_settings always_fails 0) = Inl (Error ''TimeoutError'' ''ttt'')
            \<and> invocations (retry_configured default_settings always_fails 0) = 3"
    by simp
  from retry_policy_attempts [where fn = cancelled_once and s = 0 and s' = 1
      and e = "BaseError ''CancelledError'' []" and cfg = default_settings] h5
  have c3: "retry_configured default_settings cancelled_once 0
            = (Inl (BaseError ''CancelledError'' []), 1, 1, [])"
    by simp
  from h1 h2 h3 h4 h5 c1 c2 c3 show ?thesis by simp
qed

text \<open>
  C5, as stated, fails when the base delay is not 1: \<open>retry_configured\<close> passes
  \<open>retry_base_seconds\<close> to \<open>wait_exponential\<close> as \<open>min\<close>, a lower bound of the wait, and leaves
  the multiplier at 1. With a base delay of 2 seconds the waits after the first and second
  failures are 2 and 2 seconds, where \<open>min(maxDelay, baseDelay * 2^(n-1))\<close> gives 2 and 4.
\<close>

theorem backoff_delay_counterexample:
  "sleeps (retry_configured (default_settings\<lparr>retry_base_seconds := 2\<rparr>) always_fails 0) = [2, 2]
   \<and> map (spec_delay (default_settings\<lparr>retry_base_seconds := 2\<rparr>)) [1, 2] = [2, 4]"
  by (simp add: retry_configured_def retry_loop.simps always_fails_def default_settings_def
      sleeps_def wait_exponential_def spec_delay_def)

text \<open>
  C5, amended. The wait after the \<open>n\<close>-th failed attempt (\<open>n \<ge> 1\<close>, attempts remaining) is
  \<open>max(max(0, baseDelay), min(2^(n-1), maxDelay))\<close>: the waits of a call whose first
  \<open>max_retries\<close> attempts all fail, and of a call that fails \<open>k < max_retries\<close> times and then
  succeeds, are this value for \<open>n = 1, 2, ...\<close> in order. With the default base delay of 1
  second and a maximum delay of at least 1 second (20 by default) this is
  \<open>min(maxDelay, baseDelay * 2^(n-1))\<close>: 1, 2, 4, 8, 16 and then 20 seconds.
\<close>

theorem backoff_delay:
  "(fails_times fn m s e s' \<and> max_retries cfg = int m \<longrightarrow>
      sleeps (retry_configured cfg fn s)
        = map (\<lambda>n. max (max 0 (retry_base_seconds cfg)) (min (2 ^ (n - 1)) (retry_max_seconds cfg)))
            [1..<m])
   \<and> (fails_then_succeeds fn k s v s' \<and> int k < max_retries cfg \<longrightarrow>
      sleeps (retry_configured cfg fn s)
        = map (\<lambda>n. max (max 0 (retry_base_seconds cfg)) (min (2 ^ (n - 1)) (retry_max_seconds cfg)))
            [1..<k + 1])
   \<and> (retry_base_seconds cfg = 1 \<and> 1 \<le> retry_max_seconds cfg \<longrightarrow>
      max (max 0 (retry_base_seconds cfg)) (min (2 ^ (n - 1)) (retry_max_seconds cfg))
        = spec_delay cfg n)"
proof (intro conjI impI)
  assume a: "fails_times fn m s e s' \<and> max_retries cfg = int m"
  then have "max_retries cfg = int 1 + int m - 1" by simp
  with a have "retry_configured cfg fn s
      = (Inl e, s', 1 + m - 1,
         map (wait_exponential 1 (retry_base_seconds cfg) (retry_max_seconds cfg)) [1..<1 + m - 1])"
    unfolding retry_configured_def by (simp only: retry_loop_exhausts)
  then show "sleeps (retry_configured cfg fn s)
        = map (\<lambda>n. max (max 0 (retry_base_seconds cfg)) (min (2 ^ (n - 1)) (retry_max_seconds cfg)))
            [1..<m]"
    by (simp add: sleeps_def wait_exponential_def)
next
  assume a: "fails_then_succeeds fn k s v s' \<and> int k < max_retries cfg"
  then have "int 1 + int k \<le> max_retries cfg" by simp
  with a have "retry_configured cfg fn s
      = (Inr v, s', 1 + k,
         map (wait_exponential 1 (retry_base_seconds cfg) (retry_max_seconds cfg)) [1..<1 + k])"
    unfolding retry_configured_def by (simp only: retry_loop_succeeds)
  then show "sleeps (retry_configured cfg fn s)
        = map (\<lambda>n. max (max 0 (retry_base_seconds cfg)) (min (2 ^ (n - 1)) (retry_max_seconds cfg)))
            [1..<k + 1]"
    by (simp add: sleeps_def wait_exponential_def)
next
  assume a: "retry_base_seconds cfg = 1 \<and> 1 \<le> retry_max_seconds cfg"
  have "(1::real) \<le> 2 ^ (n - 1)" by simp
  with a show "max (max 0 (retry_base_seconds cfg)) (min (2 ^ (n - 1)) (retry_max_seconds cfg))
        = spec_delay cfg n"
    by (simp add: spec_delay_def min_def max_def)
qed

theorem backoff_delay_witness:
  "fails_times always_fails 3 0 (Error ''TimeoutError'' ''ttt'') 3
   \<and> max_retries default_settings = int 3
   \<and> sleeps (retry_configured default_settings always_fails 0) = [1, 2]
   \<and> fails_then_succeeds (fail_until 2) 2 0 ''ok'' 3
   \<and> int 2 < max_retries default_settings
   \<and> sleeps (retry_configured default_settings (fail_until 2) 0) = [1, 2]
   \<and> retry_base_seconds default_settings = 1
   \<and> 1 \<le> retry_max_seconds default_settings
   \<and> spec_delay default_settings 6 = 20"
proof -
  have h1: "fails_times always_fails 3 0 (Error ''TimeoutError'' ''ttt'') 3"
    using always_fails_times [of 3 0] by (simp add: numeral_3_eq_3)
  have h2: "max_retries default_settings = int 3" by (simp add: default_settings_def)
  have h3: "fails_then_succeeds (fail_until 2) 2 0 ''ok'' 3"
    using fail_until_succeeds [of 0 2 2] by (simp add: numeral_3_eq_3)
  have h4: "int 2 < max_retries default_settings" by (simp add: default_settings_def)
  have h5: "retry_base_seconds default_settings = 1 \<and> 1 \<le> retry_max_seconds default_settings"
    by (simp add: default_settings_def)
  have u: "[Suc 0..<3] = [Suc 0, 2]" by (simp add: upt_rec)
  from backoff_delay [where fn = always_fails and m = 3 and s = 0
      and e = "Error ''TimeoutError'' ''ttt''" and s' = 3 and cfg = default_settings,
      THEN conjunct1] h1 h2
  have c1: "sleeps (retry_configured default_settings always_fails 0) = [1, 2]"
    by (simp add: default_settings_def u)
  from backoff_delay [where fn = "fail_until 2" and k = 2 and s = 0 and v = "''ok''"
      and s' = 3 and cfg = default_settings, THEN conjunct2, THEN conjunct1] h3 h4
  have c2: "sleeps (retry_configured default_settings (fail_until 2) 0) = [1, 2]"
    by (simp add: default_settings_def u)
  from backoff_delay [where cfg = default_settings and n = 6, THEN conjunct2, THEN conjunct2] h5
  have c3: "spec_delay default_settings 6 = 20"
    by (simp add: default_settings_def)
  from h1 h2 h3 h4 h5 c1 c2 c3 show ?thesis by simp
qed

section \<open>Properties of the job pipeline\<close>

lemma dget_dset: "dget (dset d k v) k' = (if k' = k then v else dget d k')"
  by (simp add: dget_def dset_def update_conv')

lemma final_state_tuple: "final_state (r, s, n, ds) = s"
  by (simp add: final_state_def)

lemma outcome_tuple: "outcome (r, s, n, ds) = r"
  by (simp add: outcome_def)

lemma invocations_tuple: "invocations (r, s, n, ds) = n"
  by (simp add: invocations_def)

lemma sleeps_tuple: "sleeps (r, s, n, ds) = ds"
  by (simp add: sleeps_def)

lemma process_job_body_absent:
  "jobs w job_id = None \<Longrightarrow> store_fault env (length (store_requests w)) = None \<Longrightarrow>
   process_job_body env job_id w
     = (Inl (job_not_found job_id), w\<lparr>store_requests := store_requests w @ [Select job_id]\<rparr>)"
  by (simp add: process_job_body_def select_job_def store_call_def)

lemma process_job_body_absent_times:
  "0 < m \<Longrightarrow> jobs w job_id = None \<Longrightarrow> \<forall>n. store_fault env n = None \<Longrightarrow>
   fails_times (process_job_body env job_id) m w (job_not_found job_id)
     (w\<lparr>store_requests := store_requests w @ replicate m (Select job_id)\<rparr>)"
proof (induction m arbitrary: w)
  case 0
  then show ?case by simp
next
  case (Suc m)
  let ?w1 = "w\<lparr>store_requests := store_requests w @ [Select job_id]\<rparr>"
  have b: "process_job_body env job_id w = (Inl (job_not_found job_id), ?w1)"
    using Suc.prems by (simp add: process_job_body_absent)
  show ?case
  proof (cases "m = 0")
    case True
    with b show ?thesis by (simp add: job_not_found_def)
  next
    case False
    then have "fails_times (process_job_body env job_id) m ?w1 (job_not_found job_id)
        (?w1\<lparr>store_requests := store_requests ?w1 @ replicate m (Select job_id)\<rparr>)"
      using Suc.IH [of ?w1] Suc.prems by simp
    with b False show ?thesis by (simp add: job_not_found_def replicate_app_Cons_same)
  qed
qed

text \<open>
  C3, as stated, fails: \<open>process_job\<close> is decorated with \<open>@retry_configured()\<close> and raises
  \<open>ValueError("Job not found")\<close> outside its \<open>try\<close> block, so the retry policy runs the whole
  function again, the lookup included. With the default settings and an empty store, the
  lookup of an unknown job id is sent three times, with waits of 1 and 2 seconds between.
\<close>

theorem process_absent_job_counterexample:
  "store_requests (final_state (process_job default_settings quiet_env ''job_9'' empty_world))
     = [Select ''job_9'', Select ''job_9'', Select ''job_9'']
   \<and> invocations (process_job default_settings quiet_env ''job_9'' empty_world) = 3
   \<and> sleeps (process_job default_settings quiet_env ''job_9'' empty_world) = [1, 2]"
  by (simp add: process_job_def retry_configured_def retry_loop.simps process_job_body_def
      select_job_def store_call_def default_settings_def quiet_env_def empty_world_def
      final_state_def invocations_def sleeps_def wait_exponential_def job_not_found_def)

text \<open>
  C3, amended. For every job id that is absent from the JobStore (the store raising no
  error of its own), \<open>process(job_id)\<close> fails the task with \<open>ValueError("Job not found: <id>")\<close>
  after the lookup has been performed \<open>max_retries\<close> times (three by default), once per
  attempt of the retry policy; no row is changed. The worker loop that runs the task then
  logs the error as "Background task failed" and goes on with the next task.
\<close>

theorem process_absent_job:
  assumes "jobs w job_id = None"
    and "\<forall>n. store_fault env n = None"
    and "max_retries cfg = int m" and "0 < m"
  shows "outcome (process_job cfg env job_id w) = Inl (job_not_found job_id)
    \<and> invocations (process_job cfg env job_id w) = m
    \<and> store_requests (final_state (process_job cfg env job_id w))
           = store_requests w @ replicate m (Select job_id)
    \<and> jobs (final_state (process_job cfg env job_id w)) = jobs w
    \<and> (\<not> stop_event w \<longrightarrow>
         worker_loop idx (process_job_task cfg env job_id # queue) w
           = worker_loop idx queue
               (task_done (log_record ''ERROR'' ''Background task failed''
                  (final_state (process_job cfg env job_id w)))))"
proof -
  let ?w' = "w\<lparr>store_requests := store_requests w @ replicate m (Select job_id)\<rparr>"
  have ft: "fails_times (process_job_body env job_id) m w (job_not_found job_id) ?w'"
    using assms by (simp add: process_job_body_absent_times)
  have mm: "max_retries cfg = int 1 + int m - 1" using assms by simp
  have r: "process_job cfg env job_id w
      = (Inl (job_not_found job_id), ?w', 1 + m - 1,
         map (wait_exponential 1 (retry_base_seconds cfg) (retry_max_seconds cfg)) [1..<1 + m - 1])"
    unfolding process_job_def retry_configured_def
    using retry_loop_exhausts [OF ft mm] by simp
  show ?thesis
    by (simp add: r outcome_def invocations_def final_state_def process_job_task_def
        job_not_found_def)
qed

theorem process_absent_job_witness:
  "jobs empty_world ''job_9'' = None
   \<and> (\<forall>n. store_fault quiet_env n = None)
   \<and> max_retries default_settings = int 3 \<and> (0::nat) < 3
   \<and> outcome (process_job default_settings quiet_env ''job_9'' empty_world)
       = Inl (Error ''ValueError'' ''Job not found: job_9'')
   \<and> invocations (process_job default_settings quiet_env ''job_9'' empty_world) = 3
   \<and> jobs (final_state (process_job default_settings quiet_env ''job_9'' empty_world)) = jobs empty_world
   \<and> \<not> stop_event empty_world
   \<and> fst (worker_loop 0 [process_job_task default_settings quiet_env ''job_9''] empty_world) = Waiting"
proof -
  have h1: "jobs empty_world ''job_9'' = None" by (simp add: empty_world_def)
  have h2: "\<forall>n. store_fault quiet_env n = None" by (simp add: quiet_env_def)
  have h3: "max_retries default_settings = int 3" by (simp add: default_settings_def)
  have h4: "(0::nat) < 3" by simp
  have h5: "\<not> stop_event empty_world" by (simp add: empty_world_def)
  note t = process_absent_job [OF h1 h2 h3 h4, of 0 "[]"]
  have s: "stop_event (final_state (process_job default_settings quiet_env ''job_9'' empty_world))
      = stop_event empty_world"
    by (simp add: process_job_def retry_configured_def retry_loop.simps process_job_body_def
      select_job_def store_call_def default_settings_def quiet_env_def empty_world_def
      final_state_def job_not_found_def)
  have c5: "fst (worker_loop 0 [process_job_task default_settings quiet_env ''job_9''] empty_world) = Waiting"
    using t s h5 by (simp add: task_done_def log_record_def)
  from h1 h2 h3 h4 h5 t c5 show ?thesis by (simp add: job_not_found_def)
qed

lemma generate_fst_gen_calls:
  "gen_calls w' = gen_calls w \<Longrightarrow>
   fst (generate_workflow_payload env payload w') = fst (generate_workflow_payload env payload w)"
  by (simp add: generate_workflow_payload_def Let_def split: sum.splits)

lemma generate_snd_world:
  "\<exists>extra. snd (generate_workflow_payload env payload w)
      = w\<lparr>gen_calls := Suc (gen_calls w), logs := logs w @ extra\<rparr>"
proof (cases "snd (generate_workflow_payload env payload w)
      = log_record ''WARNING'' ''Workflow generation fallback'' (w\<lparr>gen_calls := Suc (gen_calls w)\<rparr>)")
  case True
  then have "snd (generate_workflow_payload env payload w)
      = w\<lparr>gen_calls := Suc (gen_calls w),
          logs := logs w @ [(''WARNING'', ''Workflow generation fallback'')]\<rparr>"
    by (simp add: log_record_def)
  then show ?thesis by blast
next
  case False
  then have "snd (generate_workflow_payload env payload w)
      = w\<lparr>gen_calls := Suc (gen_calls w), logs := logs w @ []\<rparr>"
    by (auto simp add: generate_workflow_payload_def Let_def split: sum.splits if_splits)
  then show ?thesis by blast
qed

lemma process_job_body_present:
  assumes "jobs w job_id = Some job" and "job \<noteq> []"
    and "store_fault env (length (store_requests w)) = None"
    and "store_fault env (Suc (length (store_requests w))) = None"
  shows "process_job_body env job_id w = run_generation env job_id job (running_world env job_id job w)"
  using assms
  by (simp add: process_job_body_def select_job_def store_call_def read_clock_def update_job_def
      running_world_def running_fields_def)

lemma retry_configured_returns:
  "fn s = (Inr v, s') \<Longrightarrow> retry_configured cfg fn s = (Inr v, s', 1, [])"
  by (simp add: retry_configured_def retry_loop.simps)

end
